theory Spec2Isabelle
  imports Main
begin

section \<open>RxPoller: values, configuration and the backoff formula\<close>

text \<open>
  The development follows \<^verbatim>\<open>src/src/RxPoller.ts\<close> (the TypeScript source) and, where
  the compiled build \<^verbatim>\<open>src/dist/RxPoller.js\<close> differs from it, gives the build's
  variant under the same name with the suffix \<^verbatim>\<open>_dist\<close>.

  Numbers. JavaScript numbers are doubles. The configured intervals hold milliseconds
  and are modelled as \<^typ>\<open>int\<close> (an integer that is a finite double), the error
  counter as \<^typ>\<open>nat\<close> (it starts at 0 and is only ever reset to 0 or incremented by
  1). The computed delay is a \<open>jsnum\<close>: a finite integer, one of the two infinities, or
  \<^verbatim>\<open>NaN\<close>, which the double arithmetic of the backoff formula produces on overflow.
\<close>

datatype jsnum = Num int | PosInf | NegInf | NaN

text \<open>Every finite double is smaller in magnitude than \<open>2 ^ 1024\<close>.\<close>

definition double_limit :: int where
  "double_limit = 2 ^ 1024"

datatype error = TypeError | Thrown string

text \<open>
  \<^verbatim>\<open>IRxPollerConfig\<close>: both fields are optional; \<open>None\<close> is an absent
  (undefined) field.
\<close>

datatype IRxPollerConfig =
  Config (cfg_interval: "int option") (cfg_maxInterval: "int option")

text \<open>
  The combining function of \<^verbatim>\<open>_computedInterval$\<close>:
  \<^verbatim>\<open>let calInt = interval * Math.pow(2, errorCnt); return Math.min(calInt, maxInterval);\<close>
\<close>

text \<open>
  \<^verbatim>\<open>interval * Math.pow(2, errorCnt)\<close> in doubles. \<^verbatim>\<open>Math.pow(2, n)\<close> is the
  exact power up to \<open>n = 1023\<close> and \<^verbatim>\<open>Infinity\<close> from 1024 on. Scaling a double
  by a power of two is exact as long as the product is below \<open>2 ^ 1024\<close> in magnitude;
  beyond that the product is the infinity of the interval's sign. \<^verbatim>\<open>0 * Infinity\<close>
  is \<^verbatim>\<open>NaN\<close>.
\<close>

definition times_pow2 :: "int \<Rightarrow> nat \<Rightarrow> jsnum" where
  "times_pow2 interval errorCnt =
     (if errorCnt < 1024 \<and> \<bar>interval\<bar> * 2 ^ errorCnt < double_limit
        then Num (interval * 2 ^ errorCnt)
      else if interval = 0 then NaN
      else if 0 < interval then PosInf
      else NegInf)"

text \<open>\<^verbatim>\<open>Math.min(x, m)\<close> for a finite \<open>m\<close>.\<close>

definition Math_min :: "jsnum \<Rightarrow> int \<Rightarrow> jsnum" where
  "Math_min x m =
     (case x of Num a \<Rightarrow> Num (min a m) | PosInf \<Rightarrow> Num m | NegInf \<Rightarrow> NegInf | NaN \<Rightarrow> NaN)"

definition computedInterval :: "int \<Rightarrow> nat \<Rightarrow> int \<Rightarrow> jsnum" where
  "computedInterval interval errorCnt maxInterval =
     (let calInt = times_pow2 interval errorCnt in Math_min calInt maxInterval)"

section \<open>The poller instance\<close>

text \<open>
  What a call of a JavaScript function hands back, as far as the poller looks at it:
  a promise (a thenable), a function object, or \<^verbatim>\<open>undefined\<close>. A function of no
  arguments is a state transformer on the outside world \<open>'w\<close> (everything an action
  or a subscriber's callback can read and write) that also returns a value. When and how
  a promise settles is not decided at the call: it arrives later as an event.
\<close>

datatype 'w jsval = PromiseV | FunV "'w \<Rightarrow> 'w jsval \<times> 'w" | UndefinedV

type_synonym 'w jsfun = "'w \<Rightarrow> 'w jsval \<times> 'w"

datatype 'v outcome = Resolved 'v | Rejected 'v

text \<open>
  The subscription to the pipeline \<^verbatim>\<open>fromPromise(...).repeatWhen(...).retryWhen(...)\<close>
  held by a connection: none, a promise of invocation \<open>i\<close> pending, or a timer of the
  given due time pending.
\<close>

datatype phase = Idle | InFlight nat | Waiting jsnum

text \<open>What the engine did, in order: a timer armed, \<^verbatim>\<open>this._action()\<close> called,
  a value pushed to the subscribers.\<close>

datatype 'v event = Timer jsnum | Invoke nat | OnNext 'v

text \<open>
  The fields of an instance. \<open>interval\<close>, \<open>maxInterval\<close> and \<open>errorCount\<close> are
  the current values of the three \<^verbatim>\<open>BehaviorSubject\<close>s. \<open>connection\<close> is
  \<^verbatim>\<open>_connection\<close>: \<open>None\<close> for the initial no-op disposable, \<open>Some k\<close> for the
  disposable returned by the \<open>k\<close>-th connect. \<open>name\<close> is \<^verbatim>\<open>_name\<close>, which
  only the compiled build assigns. The remaining fields are the state that the rx
  objects hold: the callbacks subscribed to the published subject, the live connection
  of the \<^verbatim>\<open>ConnectableObservable\<close> if any, the number of connections and of
  invocations made so far, the pending timers of \<^verbatim>\<open>start\<close>, and the event log.
\<close>

record ('w, 'v) poller =
  action :: "'w jsfun option"
  connection :: "nat option"
  errorCount :: nat
  interval :: int
  maxInterval :: int
  name :: string
  observers :: "('v \<Rightarrow> 'w \<Rightarrow> 'w) list"
  connected :: "nat option"
  connections :: nat
  phase :: phase
  invocations :: nat
  start_timers :: "int list"
  trace :: "'v event list"

text \<open>The field initialisers of \<^verbatim>\<open>src/src/RxPoller.ts\<close>:
  \<^verbatim>\<open>_errorCount$ = new BehaviorSubject(0)\<close>, \<^verbatim>\<open>_interval$ = new BehaviorSubject(0)\<close>,
  \<^verbatim>\<open>_maxInterval$ = new BehaviorSubject(8000)\<close>.\<close>

definition fresh :: "('w, 'v) poller" where
  "fresh = \<lparr> action = None, connection = None, errorCount = 0, interval = 0,
     maxInterval = 8000, name = [], observers = [], connected = None, connections = 0,
     phase = Idle, invocations = 0, start_timers = [], trace = [] \<rparr>"

text \<open>The compiled build starts \<^verbatim>\<open>_maxInterval$\<close> at 0:
  \<^verbatim>\<open>this._maxInterval$ = new rx_1.BehaviorSubject(0)\<close>.\<close>

definition fresh_dist :: "('w, 'v) poller" where
  "fresh_dist = fresh \<lparr> maxInterval := 0 \<rparr>"

subsection \<open>setConfig and setAction\<close>

text \<open>
  JavaScript's \<^verbatim>\<open>a || b\<close> on an optional number \<open>a\<close>: \<open>a\<close> when it is truthy
  (present and not 0), else \<open>b\<close>.
\<close>

definition js_or :: "int option \<Rightarrow> int \<Rightarrow> int" where
  "js_or a b = (case a of None \<Rightarrow> b | Some n \<Rightarrow> if n = 0 then b else n)"

text \<open>
  \<^verbatim>\<open>this._interval$.onNext(config.interval || this._interval$.getValue() || 8000);\<close>
  \<^verbatim>\<open>this._maxInterval$.onNext(config.maxInterval || this._maxInterval$.getValue() || 300000);\<close>
  Reading a property of an undefined \<open>config\<close> throws a TypeError before anything is
  stored.
\<close>

definition setConfig ::
  "IRxPollerConfig option \<Rightarrow> ('w, 'v) poller \<Rightarrow> error + ('w, 'v) poller" where
  "setConfig config p =
     (case config of
        None \<Rightarrow> Inl TypeError
      | Some c \<Rightarrow>
          Inr (p \<lparr> interval := js_or (Some (js_or (cfg_interval c) (interval p))) 8000,
                   maxInterval :=
                     js_or (Some (js_or (cfg_maxInterval c) (maxInterval p))) 300000 \<rparr>))"

text \<open>\<^verbatim>\<open>src/src/RxPoller.ts\<close>: \<^verbatim>\<open>this._action = () => fn;\<close> The stored
  function returns \<open>fn\<close> itself and does not run it.\<close>

definition setAction :: "'w jsfun \<Rightarrow> ('w, 'v) poller \<Rightarrow> ('w, 'v) poller" where
  "setAction fn p = p \<lparr> action := Some (\<lambda>w. (FunV fn, w)) \<rparr>"

text \<open>\<^verbatim>\<open>src/dist/RxPoller.js\<close>:
  \<^verbatim>\<open>this._action = function () { return fn(); };\<close>\<close>

definition setAction_dist :: "'w jsfun \<Rightarrow> ('w, 'v) poller \<Rightarrow> ('w, 'v) poller" where
  "setAction_dist fn p = p \<lparr> action := Some (\<lambda>w. fn w) \<rparr>"

text \<open>\<^verbatim>\<open>this._poller$.subscribe(cb)\<close>: one more observer of the published subject.\<close>

definition subscribe ::
  "('v \<Rightarrow> 'w \<Rightarrow> 'w) \<Rightarrow> ('w, 'v) poller \<Rightarrow> ('w, 'v) poller" where
  "subscribe cb p = p \<lparr> observers := observers p @ [cb] \<rparr>"

section \<open>The polling engine\<close>

text \<open>
  The engine is the rx pipeline
  \<^verbatim>\<open>Observable.fromPromise(() => this._action()).repeatWhen(..).retryWhen(..).publish()\<close>
  together with \<^verbatim>\<open>start\<close> and \<^verbatim>\<open>stop\<close>; it is the same text in the source and
  in the build. The rx operators are an outside library (RxJS 4); the definitions below
  write out what the operators do at the places where this code uses them:
  \<^item> a subscription to \<^verbatim>\<open>fromPromise(factory)\<close> calls the factory; a thrown error
    or a result without \<^verbatim>\<open>then\<close> ends in \<^verbatim>\<open>onError\<close>, a promise is awaited;
  \<^item> \<^verbatim>\<open>repeatWhen\<close> resubscribes when its notifier emits after a completion,
    \<^verbatim>\<open>retryWhen\<close> when its notifier emits after an error;
  \<^item> a new subscription to a \<^verbatim>\<open>zip\<close> of \<^verbatim>\<open>BehaviorSubject\<close>s emits at once
    the combination of their current values;
  \<^item> \<^verbatim>\<open>connect\<close> on a connected \<^verbatim>\<open>ConnectableObservable\<close> returns the live
    connection; disposing a live connection disposes the whole subscription, timers and
    promise continuations included, while the subject keeps its observers.
  Time is not measured: a timer is logged with its due time when it is armed, and its
  firing is an event of the run.

  Scope of the log. The \<^verbatim>\<open>zip\<close> subscriptions made earlier under a connection
  stay subscribed to the three subjects. They emit again, and arm timers of their own
  from queued values, only after \<^verbatim>\<open>setConfig\<close> has pushed new values to the
  subjects of a connected poller. The model's \<^verbatim>\<open>setConfig\<close> stores the two
  fields and does not follow those subscriptions: the timers that the engine logs are
  the ones of a connection during which \<^verbatim>\<open>setConfig\<close> is not called. The
  statements below that speak of timers are about such runs; the statements about the
  error count and about delivery do not depend on the timers.
\<close>

text \<open>
  \<^verbatim>\<open>.flatMap(_ => this._computedInterval$).flatMap(interval => Observable.timer(interval))\<close>:
  the tail shared by both notifiers. The new \<^verbatim>\<open>zip\<close> subscription combines the
  current values of the three subjects and one timer is armed with the result.
\<close>

definition arm_timer :: "('w, 'v) poller \<Rightarrow> ('w, 'v) poller" where
  "arm_timer p =
     (let d = computedInterval (interval p) (errorCount p) (maxInterval p)
      in p \<lparr> phase := Waiting d, trace := trace p @ [Timer d] \<rparr>)"

text \<open>\<^verbatim>\<open>repeatWhen(n => n.do(_ => this._errorCount$.onNext(0)) ...)\<close>\<close>

definition repeatWhen :: "('w, 'v) poller \<Rightarrow> ('w, 'v) poller" where
  "repeatWhen p = arm_timer (p \<lparr> errorCount := 0 \<rparr>)"

text \<open>\<^verbatim>\<open>retryWhen(err => err.do(err =>
  this._errorCount$.onNext(this._errorCount$.getValue() + 1)) ...)\<close>\<close>

definition retryWhen :: "('w, 'v) poller \<Rightarrow> ('w, 'v) poller" where
  "retryWhen p = arm_timer (p \<lparr> errorCount := errorCount p + 1 \<rparr>)"

text \<open>
  A subscription to \<^verbatim>\<open>Observable.fromPromise(() => this._action())\<close>: the current
  \<^verbatim>\<open>_action\<close> is read and called. An undefined \<^verbatim>\<open>_action\<close> and a result that
  is not a promise are errors, which go to \<^verbatim>\<open>retryWhen\<close> at once.
\<close>

definition invoke :: "('w, 'v) poller \<Rightarrow> 'w \<Rightarrow> ('w, 'v) poller \<times> 'w" where
  "invoke p w =
     (let i = invocations p;
          p1 = p \<lparr> invocations := i + 1, trace := trace p @ [Invoke i] \<rparr>
      in case action p of
           None \<Rightarrow> (retryWhen p1, w)
         | Some a \<Rightarrow>
             (case a w of
                (PromiseV, w') \<Rightarrow> (p1 \<lparr> phase := InFlight i \<rparr>, w')
              | (_, w') \<Rightarrow> (retryWhen p1, w')))"

text \<open>The published subject calls every observer with the value, in subscription order.\<close>

definition onNext :: "('v \<Rightarrow> 'w \<Rightarrow> 'w) list \<Rightarrow> 'v \<Rightarrow> 'w \<Rightarrow> 'w" where
  "onNext cbs v w = fold (\<lambda>cb. cb v) cbs w"

text \<open>
  The promise of invocation \<open>i\<close> settles. Its continuation runs only if that invocation
  is the one the live subscription waits for: a fulfilled promise emits its value and
  completes (\<^verbatim>\<open>repeatWhen\<close>), a rejected one errors (\<^verbatim>\<open>retryWhen\<close>).
\<close>

definition settled ::
  "nat \<Rightarrow> 'v outcome \<Rightarrow> ('w, 'v) poller \<Rightarrow> 'w \<Rightarrow> ('w, 'v) poller \<times> 'w" where
  "settled i r p w =
     (if phase p = InFlight i then
        (case r of
           Resolved v \<Rightarrow>
             (repeatWhen (p \<lparr> trace := trace p @ [OnNext v] \<rparr>), onNext (observers p) v w)
         | Rejected e \<Rightarrow> (retryWhen p, w))
      else (p, w))"

text \<open>The timer armed by a notifier fires: the notifier emits and the pipeline is
  subscribed again.\<close>

definition timer_fired :: "('w, 'v) poller \<Rightarrow> 'w \<Rightarrow> ('w, 'v) poller \<times> 'w" where
  "timer_fired p w = (case phase p of Waiting d \<Rightarrow> invoke p w | _ \<Rightarrow> (p, w))"

text \<open>\<^verbatim>\<open>this._poller$.connect()\<close>: the live connection if there is one, else a new
  connection whose subscription starts with an invocation.\<close>

definition connect :: "('w, 'v) poller \<Rightarrow> 'w \<Rightarrow> (nat \<times> ('w, 'v) poller) \<times> 'w" where
  "connect p w =
     (case connected p of
        Some k \<Rightarrow> ((k, p), w)
      | None \<Rightarrow>
          (let k = connections p;
               (p', w') = invoke (p \<lparr> connected := Some k, connections := k + 1 \<rparr>) w
           in ((k, p'), w')))"

text \<open>
  \<^verbatim>\<open>Observable.timer(forceStart ? 0 : this._interval$.getValue()).subscribe(_ => {
  this._connection = this._poller$.connect(); });\<close>
  The subscription to this timer is not kept anywhere.
\<close>

definition start :: "bool \<Rightarrow> ('w, 'v) poller \<Rightarrow> ('w, 'v) poller" where
  "start forceStart p =
     (let d = (if forceStart then 0 else interval p)
      in p \<lparr> start_timers := start_timers p @ [d], trace := trace p @ [Timer (Num d)] \<rparr>)"

text \<open>A pending timer of \<^verbatim>\<open>start\<close> fires and runs its callback. All these
  timers have the same callback; with several of them pending, the one taken off the
  list here is the oldest, whichever of them the runtime fires.\<close>

definition start_timer_fired :: "('w, 'v) poller \<Rightarrow> 'w \<Rightarrow> ('w, 'v) poller \<times> 'w" where
  "start_timer_fired p w =
     (case start_timers p of
        [] \<Rightarrow> (p, w)
      | d # ds \<Rightarrow>
          (let ((k, p'), w') = connect (p \<lparr> start_timers := ds \<rparr>) w
           in (p' \<lparr> connection := Some k \<rparr>, w')))"

text \<open>\<^verbatim>\<open>this._connection.dispose()\<close>: the initial no-op disposable and a connection
  that is no longer live do nothing.\<close>

definition stop :: "('w, 'v) poller \<Rightarrow> ('w, 'v) poller" where
  "stop p =
     (case connection p of
        None \<Rightarrow> p
      | Some k \<Rightarrow>
          if connected p = Some k then p \<lparr> connected := None, phase := Idle \<rparr> else p)"

text \<open>A run: the calls of the host and the callbacks of the runtime, one after the
  other.\<close>

datatype 'v stimulus = Start bool | Stop | StartTimerFired | TimerFired | Settled nat "'v outcome"

fun step :: "'v stimulus \<Rightarrow> ('w, 'v) poller \<times> 'w \<Rightarrow> ('w, 'v) poller \<times> 'w" where
  "step (Start forceStart) (p, w) = (start forceStart p, w)"
| "step Stop (p, w) = (stop p, w)"
| "step StartTimerFired (p, w) = start_timer_fired p w"
| "step TimerFired (p, w) = timer_fired p w"
| "step (Settled i r) (p, w) = settled i r p w"

definition run :: "'v stimulus list \<Rightarrow> ('w, 'v) poller \<times> 'w \<Rightarrow> ('w, 'v) poller \<times> 'w" where
  "run steps s = fold step steps s"

section \<open>The registry and the constructor\<close>

text \<open>
  \<^verbatim>\<open>private static _pollers = new Map<String, RxPoller>()\<close>. A JavaScript
  \<^verbatim>\<open>Map\<close> object holds its entries (what \<^verbatim>\<open>get\<close> and \<^verbatim>\<open>set\<close> work on) apart
  from its own properties (what \<^verbatim>\<open>m[key]\<close> and \<^verbatim>\<open>delete m[key]\<close> work on).
  Instances are objects: the map holds references, here indices into the list of
  allocated instances.
\<close>

record js_map =
  entries :: "string \<rightharpoonup> nat"
  props :: "string set"

record ('w, 'v) runtime =
  instances :: "('w, 'v) poller list"
  pollers :: js_map

definition runtime0 :: "('w, 'v) runtime" where
  "runtime0 = \<lparr> instances = [], pollers = \<lparr> entries = Map.empty, props = {} \<rparr> \<rparr>"

text \<open>
  \<^verbatim>\<open>let curr = this._pollers.get(name);
  if (curr) throw "Cannot cache two RxPollers with the same name."
  this._pollers.set(name, instance);\<close>
\<close>

definition setPoller :: "string \<Rightarrow> nat \<Rightarrow> js_map \<Rightarrow> error + js_map" where
  "setPoller nm inst m =
     (let curr = entries m nm
      in case curr of
           Some _ \<Rightarrow> Inl (Thrown ''Cannot cache two RxPollers with the same name.'')
         | None \<Rightarrow> Inr (m \<lparr> entries := (entries m)(nm \<mapsto> inst) \<rparr>))"

text \<open>\<^verbatim>\<open>return this._pollers.get(name);\<close>\<close>

definition getPoller :: "string \<Rightarrow> js_map \<Rightarrow> nat option" where
  "getPoller nm m = entries m nm"

text \<open>The build's \<^verbatim>\<open>removePoller\<close>: \<^verbatim>\<open>delete this._pollers[name];\<close>\<close>

definition removePoller :: "string \<Rightarrow> js_map \<Rightarrow> js_map" where
  "removePoller nm m = m \<lparr> props := props m - {nm} \<rparr>"

text \<open>
  The constructor of the source: the instance is allocated with its field initialisers,
  then \<^verbatim>\<open>this.setConfig(config); RxPoller.setPoller(name, this); return this;\<close>
  The result is the thrown error or the new reference, with the state as the call
  leaves it.
\<close>

definition RxPoller_new ::
  "string \<Rightarrow> IRxPollerConfig option \<Rightarrow> ('w, 'v) runtime \<Rightarrow> (error + nat) \<times> ('w, 'v) runtime" where
  "RxPoller_new nm config rt =
     (let this = length (instances rt);
          rt1 = rt \<lparr> instances := instances rt @ [fresh] \<rparr>
      in case setConfig config fresh of
           Inl e \<Rightarrow> (Inl e, rt1)
         | Inr p \<Rightarrow>
             (let rt2 = rt1 \<lparr> instances := (instances rt1)[this := p] \<rparr>
              in case setPoller nm this (pollers rt2) of
                   Inl e \<Rightarrow> (Inl e, rt2)
                 | Inr m \<Rightarrow> (Inr this, rt2 \<lparr> pollers := m \<rparr>)))"

text \<open>
  The constructor of the build:
  \<^verbatim>\<open>this.setConfig(config); this._name = name; RxPoller.setPoller(name, this);\<close>
\<close>

definition RxPoller_new_dist ::
  "string \<Rightarrow> IRxPollerConfig option \<Rightarrow> ('w, 'v) runtime \<Rightarrow> (error + nat) \<times> ('w, 'v) runtime" where
  "RxPoller_new_dist nm config rt =
     (let this = length (instances rt);
          rt1 = rt \<lparr> instances := instances rt @ [fresh_dist] \<rparr>
      in case setConfig config fresh_dist of
           Inl e \<Rightarrow> (Inl e, rt1)
         | Inr p \<Rightarrow>
             (let rt2 = rt1 \<lparr> instances := (instances rt1)[this := p \<lparr> name := nm \<rparr>] \<rparr>
              in case setPoller nm this (pollers rt2) of
                   Inl e \<Rightarrow> (Inl e, rt2)
                 | Inr m \<Rightarrow> (Inr this, rt2 \<lparr> pollers := m \<rparr>)))"

text \<open>The build's \<^verbatim>\<open>destroy\<close>:
  \<^verbatim>\<open>this.stop(); RxPoller.removePoller(this._name);\<close>\<close>

definition destroy :: "nat \<Rightarrow> ('w, 'v) runtime \<Rightarrow> ('w, 'v) runtime" where
  "destroy this rt =
     (let rt1 = rt \<lparr> instances := (instances rt)[this := stop (instances rt ! this)] \<rparr>
      in rt1 \<lparr> pollers := removePoller (name (instances rt1 ! this)) (pollers rt1) \<rparr>)"

section \<open>Example pollers\<close>

text \<open>
  The concrete pollers at which the theorems below are evaluated. The outside world is a
  counter; the action adds one to it at each call and returns a promise.
\<close>

definition counting_action :: "nat jsfun" where
  "counting_action w = (PromiseV, w + 1)"

text \<open>\<^verbatim>\<open>p = new RxPoller('posts', {interval: 1000, maxInterval: 10000});
  p.setAction(counting_action)\<close>, in the source and in the build.\<close>

definition posts_src :: "(nat, string) poller" where
  "posts_src = setAction counting_action
     (instances (snd (RxPoller_new ''posts'' (Some (Config (Some 1000) (Some 10000))) runtime0)) ! 0)"

definition posts_dist :: "(nat, string) poller" where
  "posts_dist = setAction_dist counting_action
     (instances (snd (RxPoller_new_dist ''posts'' (Some (Config (Some 1000) (Some 10000))) runtime0)) ! 0)"

text \<open>The build's poller with two subscribers, started with \<^verbatim>\<open>start(true)\<close>, after
  its start timer has fired: the first invocation is in flight.\<close>

definition polling :: "(nat, string) poller \<times> nat" where
  "polling = run [Start True, StartTimerFired]
     (subscribe (\<lambda>v w. w + 10) (subscribe (\<lambda>v w. w * 2) posts_dist), 0)"

text \<open>A registry holding one poller of the source, named \<^verbatim>\<open>posts\<close>.\<close>

definition one_poller :: "(nat, string) runtime" where
  "one_poller = snd (RxPoller_new ''posts'' (Some (Config (Some 5000) (Some 40000))) runtime0)"

section \<open>Properties of the backoff formula\<close>

lemma computedInterval_pos:
  assumes "0 < I" and "I \<le> M" and "M < double_limit"
  shows "computedInterval I e M = Num (min (I * 2 ^ e) M)"
proof (cases "e < 1024 \<and> \<bar>I\<bar> * 2 ^ e < double_limit")
  case True
  then show ?thesis
    by (simp add: computedInterval_def times_pow2_def Math_min_def)
next
  case False
  have "double_limit \<le> I * 2 ^ e"
  proof (cases "e < 1024")
    case True
    with False assms(1) show ?thesis by simp
  next
    case False
    then have "double_limit \<le> 2 ^ e"
      unfolding double_limit_def by (intro power_increasing) simp_all
    also have "(2::int) ^ e \<le> I * 2 ^ e"
      using assms(1) mult_right_mono [of 1 I "2 ^ e"] by simp
    finally show ?thesis .
  qed
  with assms(3) have "min (I * 2 ^ e) M = M"
    by simp
  moreover have "times_pow2 I e = PosInf"
    using False assms(1) by (simp add: times_pow2_def)
  ultimately show ?thesis
    by (simp add: computedInterval_def Math_min_def)
qed





section \<open>Configuration\<close>

lemma setConfig_Inr:
  "setConfig (Some c) p = Inr p' \<Longrightarrow>
     interval p' = js_or (Some (js_or (cfg_interval c) (interval p))) 8000
   \<and> maxInterval p' = js_or (Some (js_or (cfg_maxInterval c) (maxInterval p))) 300000"
  by (auto simp: setConfig_def)

text \<open>
  Claim C8. Of two calls of \<^verbatim>\<open>setConfig\<close>, a later one that supplies only one of the
  two fields leaves the other field as the earlier call stored it, which is the value
  the earlier call gave explicitly (a number other than 0: \<^verbatim>\<open>||\<close> takes 0 for
  absent). The example of the claim is the witness.
\<close>

theorem setConfig_partial_update:
  assumes "setConfig (Some c1) p = Inr p1" and "setConfig (Some c2) p1 = Inr p2"
  shows "(cfg_maxInterval c2 = None \<longrightarrow> maxInterval p2 = maxInterval p1)
       \<and> (cfg_interval c2 = None \<longrightarrow> interval p2 = interval p1)
       \<and> (cfg_maxInterval c1 = Some m \<and> m \<noteq> 0 \<and> cfg_maxInterval c2 = None \<longrightarrow> maxInterval p2 = m)
       \<and> (cfg_interval c1 = Some i \<and> i \<noteq> 0 \<and> cfg_interval c2 = None \<longrightarrow> interval p2 = i)"
  using setConfig_Inr [OF assms(1)] setConfig_Inr [OF assms(2)]
  by (auto simp: js_or_def split: option.splits)

theorem setConfig_partial_update_witness:
  "\<exists>p1 p2. setConfig (Some (Config (Some 5000) (Some 40000))) (fresh :: (nat, string) poller) = Inr p1
     \<and> setConfig (Some (Config (Some 6000) None)) p1 = Inr p2
     \<and> maxInterval p1 = 40000 \<and> maxInterval p2 = 40000 \<and> interval p2 = 6000"
proof -
  obtain p1 :: "(nat, string) poller"
    where p1: "setConfig (Some (Config (Some 5000) (Some 40000))) fresh = Inr p1"
    by (simp add: setConfig_def)
  obtain p2 where p2: "setConfig (Some (Config (Some 6000) None)) p1 = Inr p2"
    by (simp add: setConfig_def)
  from setConfig_partial_update [OF p1 p2, of 40000 5000]
  have "maxInterval p2 = 40000" and "maxInterval p1 = 40000"
    by simp_all
  moreover have "interval p2 = 6000"
    using setConfig_Inr [OF p2] by (simp add: js_or_def)
  ultimately show ?thesis
    using p1 p2 by blast
qed

text \<open>
  Claim C5. With no interval ever supplied the stored interval is 8000. The stored
  maximum with none ever supplied is 8000 in the source, whose \<^verbatim>\<open>_maxInterval$\<close>
  starts at 8000 so that the fallback \<^verbatim>\<open>|| 300000\<close> is never reached; it is 300000
  in the build, which starts the subject at 0.
\<close>

theorem maxInterval_default:
  "(case RxPoller_new ''posts'' (Some (Config None None)) (runtime0 :: (nat, string) runtime) of
      (Inr this, rt) \<Rightarrow>
        interval (instances rt ! this) = 8000 \<and> maxInterval (instances rt ! this) = 8000
    | (Inl e, rt) \<Rightarrow> False)
   \<and> (case RxPoller_new_dist ''posts'' (Some (Config None None)) (runtime0 :: (nat, string) runtime) of
      (Inr this, rt) \<Rightarrow>
        interval (instances rt ! this) = 8000 \<and> maxInterval (instances rt ! this) = 300000
    | (Inl e, rt) \<Rightarrow> False)"
  by (simp add: RxPoller_new_def RxPoller_new_dist_def runtime0_def setConfig_def fresh_def
      fresh_dist_def js_or_def setPoller_def Let_def)

section \<open>The registry\<close>

lemma setPoller_registered:
  "getPoller nm m = Some r \<Longrightarrow>
     setPoller nm inst m = Inl (Thrown ''Cannot cache two RxPollers with the same name.'')"
  by (simp add: getPoller_def setPoller_def)

lemma setPoller_free:
  "getPoller nm m = None \<Longrightarrow>
     setPoller nm inst m = Inr (m \<lparr> entries := (entries m)(nm \<mapsto> inst) \<rparr>)"
  by (simp add: getPoller_def setPoller_def)

lemma RxPoller_new_undefined:
  "RxPoller_new nm None rt = (Inl TypeError, rt \<lparr> instances := instances rt @ [fresh] \<rparr>)"
  by (simp add: RxPoller_new_def setConfig_def Let_def)

lemma RxPoller_new_pollers_on_error:
  "fst (RxPoller_new nm config rt) = Inl e \<Longrightarrow>
     pollers (snd (RxPoller_new nm config rt)) = pollers rt"
  by (auto simp: RxPoller_new_def Let_def split: sum.splits)

lemma RxPoller_new_keeps_instances:
  "r < length (instances rt) \<Longrightarrow>
     instances (snd (RxPoller_new nm config rt)) ! r = instances rt ! r"
  by (auto simp: RxPoller_new_def Let_def nth_append split: sum.splits)

lemma RxPoller_new_registered:
  assumes "getPoller nm (pollers rt) = Some r"
  shows "fst (RxPoller_new nm (Some c) rt)
         = Inl (Thrown ''Cannot cache two RxPollers with the same name.'')"
  using setPoller_registered [OF assms]
  by (simp add: RxPoller_new_def setConfig_def Let_def)

lemma one_poller_eq:
  "one_poller = \<lparr> instances = [fresh \<lparr> interval := 5000, maxInterval := 40000 \<rparr>],
     pollers = \<lparr> entries = [''posts'' \<mapsto> 0], props = {} \<rparr> \<rparr>"
  by (simp add: one_poller_def RxPoller_new_def runtime0_def setConfig_def js_or_def
      setPoller_def Let_def)

text \<open>
  Claim C10. Constructing a poller with the config argument undefined throws (a
  TypeError, from \<^verbatim>\<open>setConfig\<close> reading \<^verbatim>\<open>config.interval\<close>) and registers
  nothing; a construction that returns an instance was given a config object; and a
  config object with both fields absent is enough when the name is free.
\<close>

theorem RxPoller_new_requires_config:
  "fst (RxPoller_new nm None rt) = Inl TypeError
   \<and> pollers (snd (RxPoller_new nm None rt)) = pollers rt
   \<and> (\<forall>this. fst (RxPoller_new nm config rt) = Inr this \<longrightarrow> config \<noteq> None)
   \<and> (getPoller nm (pollers rt) = None \<longrightarrow>
        fst (RxPoller_new nm (Some (Config None None)) rt) = Inr (length (instances rt)))"
proof (intro conjI allI impI)
  show "fst (RxPoller_new nm None rt) = Inl TypeError"
    by (simp add: RxPoller_new_undefined)
  show "pollers (snd (RxPoller_new nm None rt)) = pollers rt"
    by (simp add: RxPoller_new_undefined)
  show "config \<noteq> None" if "fst (RxPoller_new nm config rt) = Inr this" for this
    using that by (cases config) (simp_all add: RxPoller_new_undefined)
  show "fst (RxPoller_new nm (Some (Config None None)) rt) = Inr (length (instances rt))"
    if "getPoller nm (pollers rt) = None"
    using that by (simp add: RxPoller_new_def setConfig_def setPoller_free Let_def)
qed

theorem RxPoller_new_requires_config_witness:
  "fst (RxPoller_new ''posts'' None (runtime0 :: (nat, string) runtime)) = Inl TypeError
   \<and> getPoller ''posts'' (pollers (runtime0 :: (nat, string) runtime)) = None
   \<and> fst (RxPoller_new ''posts'' (Some (Config None None)) (runtime0 :: (nat, string) runtime))
       = Inr 0"
proof -
  have free: "getPoller ''posts'' (pollers (runtime0 :: (nat, string) runtime)) = None"
    by (simp add: getPoller_def runtime0_def)
  show ?thesis
    using RxPoller_new_requires_config
      [of "''posts''" "runtime0 :: (nat, string) runtime" "Some (Config None None)"] free
    by (simp add: runtime0_def)
qed

text \<open>
  Claim C6. When a name is already registered, registering a second poller under it
  fails: \<^verbatim>\<open>setPoller\<close> throws, so the construction throws (the duplicate-name string whenever a config object is
  given), the registry is as it was, \<^verbatim>\<open>getPoller\<close> still returns the first poller,
  and that poller's fields are untouched.
\<close>

theorem RxPoller_new_duplicate_name:
  assumes "getPoller nm (pollers rt) = Some r"
  shows "setPoller nm inst (pollers rt)
           = Inl (Thrown ''Cannot cache two RxPollers with the same name.'')
       \<and> (\<exists>e. fst (RxPoller_new nm config rt) = Inl e)
       \<and> (config \<noteq> None \<longrightarrow>
            fst (RxPoller_new nm config rt)
            = Inl (Thrown ''Cannot cache two RxPollers with the same name.''))
       \<and> pollers (snd (RxPoller_new nm config rt)) = pollers rt
       \<and> getPoller nm (pollers (snd (RxPoller_new nm config rt))) = Some r
       \<and> (r < length (instances rt) \<longrightarrow>
            instances (snd (RxPoller_new nm config rt)) ! r = instances rt ! r)"
proof -
  have err: "\<exists>e. fst (RxPoller_new nm config rt) = Inl e"
    by (cases config) (simp_all add: RxPoller_new_undefined RxPoller_new_registered [OF assms])
  then have same: "pollers (snd (RxPoller_new nm config rt)) = pollers rt"
    by (auto dest: RxPoller_new_pollers_on_error)
  show ?thesis
    using err same assms
    by (auto simp: setPoller_registered RxPoller_new_registered RxPoller_new_keeps_instances)
qed

theorem RxPoller_new_duplicate_name_witness:
  "getPoller ''posts'' (pollers one_poller) = Some 0
   \<and> setPoller ''posts'' 1 (pollers one_poller)
       = Inl (Thrown ''Cannot cache two RxPollers with the same name.'')
   \<and> fst (RxPoller_new ''posts'' (Some (Config None None)) one_poller)
       = Inl (Thrown ''Cannot cache two RxPollers with the same name.'')
   \<and> getPoller ''posts'' (pollers (snd (RxPoller_new ''posts'' (Some (Config None None)) one_poller)))
       = Some 0
   \<and> instances (snd (RxPoller_new ''posts'' (Some (Config None None)) one_poller)) ! 0
       = fresh \<lparr> interval := 5000, maxInterval := 40000 \<rparr>"
proof -
  have reg: "getPoller ''posts'' (pollers one_poller) = Some 0"
    by (simp add: one_poller_eq getPoller_def)
  have len: "0 < length (instances one_poller)"
    by (simp add: one_poller_eq)
  show ?thesis
    using RxPoller_new_duplicate_name
      [OF reg, where config = "Some (Config None None)" and inst = 1] reg len
    by (simp add: one_poller_eq)
qed

lemma getPoller_removePoller: "getPoller nm (removePoller nm' m) = getPoller nm m"
  by (simp add: getPoller_def removePoller_def)

text \<open>
  Claim C4. The build's \<^verbatim>\<open>destroy\<close> does not free the name: \<^verbatim>\<open>removePoller\<close>
  deletes a property of the \<^verbatim>\<open>Map\<close> object, not its entry, so every lookup answers
  after \<^verbatim>\<open>destroy\<close> what it answered before. For the poller \<^verbatim>\<open>posts\<close>:
  after \<^verbatim>\<open>destroy\<close>, \<^verbatim>\<open>getPoller\<close> still returns it and a new poller of that
  name is refused.
\<close>

theorem destroy_keeps_entry:
  "getPoller nm (pollers (destroy this rt)) = getPoller nm (pollers rt)
   \<and> (let rt1 = snd (RxPoller_new_dist ''posts'' (Some (Config None None))
                     (runtime0 :: (nat, string) runtime));
          rt2 = destroy 0 rt1
      in fst (RxPoller_new_dist ''posts'' (Some (Config None None))
               (runtime0 :: (nat, string) runtime)) = Inr 0
       \<and> name (instances rt1 ! 0) = ''posts''
       \<and> getPoller ''posts'' (pollers rt2) = Some 0
       \<and> fst (RxPoller_new_dist ''posts'' (Some (Config None None)) rt2)
           = Inl (Thrown ''Cannot cache two RxPollers with the same name.''))"
  by (simp add: destroy_def getPoller_removePoller Let_def RxPoller_new_dist_def runtime0_def
      setConfig_def js_or_def setPoller_def getPoller_def removePoller_def fresh_dist_def
      fresh_def stop_def)

section \<open>The polling engine\<close>

lemmas engine_defs = run_def start_def stop_def start_timer_fired_def connect_def invoke_def
  settled_def timer_fired_def repeatWhen_def retryWhen_def arm_timer_def
  onNext_def subscribe_def Let_def

lemma posts_src_eq:
  "posts_src = fresh \<lparr> interval := 1000, maxInterval := 10000,
     action := Some (\<lambda>w. (FunV counting_action, w)) \<rparr>"
  by (simp add: posts_src_def RxPoller_new_def runtime0_def setConfig_def js_or_def
      setPoller_def setAction_def Let_def fresh_def)

lemma posts_dist_eq:
  "posts_dist = fresh \<lparr> interval := 1000, maxInterval := 10000, name := ''posts'',
     action := Some counting_action \<rparr>"
  by (simp add: posts_dist_def RxPoller_new_dist_def runtime0_def setConfig_def js_or_def
      setPoller_def setAction_dist_def Let_def fresh_def fresh_dist_def)

lemma polling_eq:
  "polling = (fresh \<lparr> interval := 1000, maxInterval := 10000, name := ''posts'',
     action := Some counting_action, observers := [\<lambda>v w. w * 2, \<lambda>v w. w + 10],
     trace := [Timer (Num 0), Invoke 0], connected := Some 0, connections := 1,
     invocations := 1, phase := InFlight 0, connection := Some 0 \<rparr>, 1)"
  by (simp add: polling_def posts_dist_eq engine_defs fresh_def counting_action_def)

lemma invoke_promise:
  assumes "action p = Some a" and "fst (a w) = PromiseV"
  shows "invoke p w =
    (p \<lparr> invocations := invocations p + 1, trace := trace p @ [Invoke (invocations p)],
         phase := InFlight (invocations p) \<rparr>, snd (a w))"
  using assms by (cases "a w") (simp add: invoke_def Let_def)

text \<open>What \<^verbatim>\<open>stop\<close> does achieve: once a live connection is disposed, a promise that
  settles late and a timer that was pending change nothing.\<close>

lemma stop_discards:
  assumes "connected p = Some k" and "connection p = Some k"
  shows "settled i r (stop p) w = (stop p, w) \<and> timer_fired (stop p) w = (stop p, w)
    \<and> connected (stop p) = None"
  using assms by (simp add: stop_def settled_def timer_fired_def)

text \<open>
  Claim C7. When the promise of the invocation in flight settles: if it is fulfilled,
  the error count becomes 0 and every subscriber's callback is run with the result, in
  subscription order; if it is rejected, the error count becomes its previous value plus
  1 and no callback is run.
\<close>

theorem settled_outcome:
  assumes "phase p = InFlight i"
  shows "errorCount (fst (settled i (Resolved v) p w)) = 0
       \<and> snd (settled i (Resolved v) p w) = fold (\<lambda>cb. cb v) (observers p) w
       \<and> errorCount (fst (settled i (Rejected e) p w)) = errorCount p + 1
       \<and> snd (settled i (Rejected e) p w) = w"
  using assms
  by (simp add: settled_def repeatWhen_def retryWhen_def arm_timer_def onNext_def Let_def)

theorem settled_outcome_witness:
  "phase (fst polling) = InFlight 0
   \<and> errorCount (fst (settled 0 (Resolved ''posts'') (fst polling) (snd polling))) = 0
   \<and> snd polling = 1
   \<and> snd (settled 0 (Resolved ''posts'') (fst polling) (snd polling)) = 12
   \<and> errorCount (fst (settled 0 (Rejected ''offline'') (fst polling) (snd polling))) = 1
   \<and> snd (settled 0 (Rejected ''offline'') (fst polling) (snd polling)) = 1"
proof -
  have inflight: "phase (fst polling) = InFlight 0"
    by (simp add: polling_eq)
  show ?thesis
    using settled_outcome [OF inflight, of "''posts''" "snd polling" "''offline''"]
    by (simp add: polling_eq fresh_def)
qed

text \<open>
  Claim C9. A poller with interval 1000 and maximum 10000, no errors so far, not
  connected, whose stored action returns a promise at every call, is started without
  \<open>forceStart\<close>; its first two promises are rejected and the third is fulfilled. The
  timers armed and the invocations made are then, in order: 1000 and the first
  invocation, 2000 and the second, 4000 and the third, its value, 1000 and the fourth.
\<close>

theorem backoff_run:
  assumes "interval p = 1000" and "maxInterval p = 10000" and "errorCount p = 0"
    and "connected p = None" and "start_timers p = []"
    and "action p = Some a" and "\<forall>w. fst (a w) = PromiseV" and "invocations p = n"
  shows "trace (fst (run [Start False, StartTimerFired, Settled n (Rejected e1), TimerFired,
           Settled (n + 1) (Rejected e2), TimerFired, Settled (n + 2) (Resolved v), TimerFired]
           (p, w)))
         = trace p @ [Timer (Num 1000), Invoke n, Timer (Num 2000), Invoke (n + 1),
                      Timer (Num 4000), Invoke (n + 2), OnNext v, Timer (Num 1000),
                      Invoke (n + 3)]"
  using assms
  by (simp add: run_def start_def start_timer_fired_def connect_def settled_def timer_fired_def
      repeatWhen_def retryWhen_def arm_timer_def computedInterval_pos double_limit_def
      invoke_promise Let_def)

theorem backoff_run_witness:
  "interval posts_dist = 1000 \<and> maxInterval posts_dist = 10000 \<and> errorCount posts_dist = 0
   \<and> connected posts_dist = None \<and> start_timers posts_dist = []
   \<and> action posts_dist = Some counting_action \<and> (\<forall>w. fst (counting_action w) = PromiseV)
   \<and> invocations posts_dist = 0
   \<and> trace (fst (run [Start False, StartTimerFired, Settled 0 (Rejected ''offline''), TimerFired,
        Settled 1 (Rejected ''offline''), TimerFired, Settled 2 (Resolved ''posts''), TimerFired]
        (posts_dist, 0)))
      = [Timer (Num 1000), Invoke 0, Timer (Num 2000), Invoke 1, Timer (Num 4000), Invoke 2,
         OnNext ''posts'', Timer (Num 1000), Invoke 3]"
proof -
  have promise: "\<forall>w. fst (counting_action w) = PromiseV"
    by (simp add: counting_action_def)
  have fields: "interval posts_dist = 1000" "maxInterval posts_dist = 10000"
    "errorCount posts_dist = 0" "connected posts_dist = None" "start_timers posts_dist = []"
    "action posts_dist = Some counting_action" "invocations posts_dist = 0"
    "trace posts_dist = []"
    by (simp_all add: posts_dist_eq fresh_def)
  show ?thesis
    using backoff_run [OF fields(1-6) promise fields(7),
        of "''offline''" "''offline''" "''posts''" 0]
    by (simp add: fields promise eval_nat_numeral)
qed

text \<open>
  Claim C2. The source's \<^verbatim>\<open>setAction\<close> stores \<^verbatim>\<open>() => fn\<close>: for every
  \<open>fn\<close>, a poll cycle calls the stored function, which hands back \<open>fn\<close> without
  running it; the outside world is as before, nothing is awaited and the cycle counts
  as an error. At the poller \<^verbatim>\<open>posts\<close> of the source the first cycle leaves the
  call counter at 0 and arms the backed-off timer; the build, which stores
  \<^verbatim>\<open>function () { return fn(); }\<close>, calls the action once and awaits its promise.
\<close>

theorem setAction_not_invoked:
  "invoke (setAction fn p) w
     = (retryWhen (setAction fn p \<lparr> invocations := invocations p + 1,
                     trace := trace p @ [Invoke (invocations p)] \<rparr>), w)
   \<and> run [Start True, StartTimerFired] (posts_src, 0)
     = (posts_src \<lparr> trace := [Timer (Num 0), Invoke 0, Timer (Num 2000)],
          connected := Some 0, connections := 1, invocations := 1, errorCount := 1,
          phase := Waiting (Num 2000),
          connection := Some 0 \<rparr>, 0)
   \<and> run [Start True, StartTimerFired] (posts_dist, 0)
     = (posts_dist \<lparr> trace := [Timer (Num 0), Invoke 0], connected := Some 0,
          connections := 1, invocations := 1, phase := InFlight 0,
          connection := Some 0 \<rparr>, 1)"
  by (simp add: setAction_def posts_src_eq posts_dist_eq engine_defs fresh_def
      counting_action_def computedInterval_pos double_limit_def)

text \<open>
  Claim C3. \<^verbatim>\<open>stop\<close> leaves a pending timer of \<^verbatim>\<open>start\<close> in place. At the
  build's poller \<^verbatim>\<open>posts\<close>, \<^verbatim>\<open>start(false)\<close> followed by \<^verbatim>\<open>stop()\<close>:
  when the initial delay of 1000 elapses the poller connects and calls the action (the
  call counter goes to 1), with the promise awaited. The source's poller connects in the
  same way and goes on arming timers.
\<close>

theorem stop_misses_start_timer:
  "start_timers (stop (start forceStart p))
     = start_timers p @ [if forceStart then 0 else interval p]
   \<and> run [Start False, Stop, StartTimerFired] (posts_dist, 0)
     = (posts_dist \<lparr> trace := [Timer (Num 1000), Invoke 0], connected := Some 0,
          connections := 1, invocations := 1, phase := InFlight 0,
          connection := Some 0 \<rparr>, 1)
   \<and> trace (fst (run [Start False, Stop, StartTimerFired] (posts_src, 0)))
     = [Timer (Num 1000), Invoke 0, Timer (Num 2000)]"
  by (simp add: posts_src_eq posts_dist_eq engine_defs fresh_def counting_action_def
      computedInterval_pos double_limit_def split: option.splits)

end
